theory Spec2Isabelle
  imports Complex_Main "HOL-Library.Multiset" "HOL-Library.AList"
begin

section \<open>Python floats: IEEE 754 binary64 values\<close>

text \<open>
  A Python \<open>float\<close> is a binary64 number. It is modelled by its value: a finite float is the
  rational it denotes, and the three special values are constructors of their own. The two
  zeros \<open>0.0\<close> and \<open>-0.0\<close> are one value here, as they are for Python's \<open>==\<close>. Every
  arithmetic operation computes the exact rational result and rounds it to the nearest
  binary64 value, ties to even (\<open>rn\<close>), as the hardware does.
\<close>

datatype float64 = Finite rat | PInf | NInf | NaN

text \<open>Rounding a rational to the nearest integer, ties to the even one.\<close>

definition rhe :: "rat \<Rightarrow> int" where
  "rhe x = (let f = \<lfloor>x\<rfloor>; d = x - of_int f
            in if d < 1 / 2 then f
               else if 1 / 2 < d then f + 1
               else if even f then f else f + 1)"

text \<open>
  The binary exponent of a positive rational, kept inside the exponent range of binary64:
  \<open>expo x = e\<close> means \<open>2^e \<le> x < 2^(e+1)\<close>, except that \<open>e\<close> stops at \<open>-1022\<close> (the
  subnormal range shares the exponent of the smallest normal number) and at \<open>1023\<close>.
\<close>

function expo_up :: "int \<Rightarrow> rat \<Rightarrow> int" where
  "expo_up e x = (if 1023 \<le> e \<or> x < 2 then e else expo_up (e + 1) (x / 2))"
  by pat_completeness auto
termination
  by (relation "measure (\<lambda>(e, x). nat (1023 - e))") auto

function expo_down :: "int \<Rightarrow> rat \<Rightarrow> int" where
  "expo_down e x = (if e \<le> - 1022 \<or> 1 \<le> x then e else expo_down (e - 1) (2 * x))"
  by pat_completeness auto
termination
  by (relation "measure (\<lambda>(e, x). nat (e + 1022))") auto

declare expo_up.simps [simp del] expo_down.simps [simp del]

definition expo :: "rat \<Rightarrow> int" where
  "expo x = (if 1 \<le> x then expo_up 0 x else expo_down 0 x)"

text \<open>
  Rounding a positive rational to binary64: 53 significant bits at the exponent of \<open>x\<close>, so
  the spacing of the candidates is \<open>2^(expo x - 52)\<close>; a result of \<open>2^1024\<close> or more
  overflows (\<open>None\<close>).
\<close>

definition rn_pos :: "rat \<Rightarrow> rat option" where
  "rn_pos x = (let q = expo x - 52; y = of_int (rhe (x / 2 powi q)) * 2 powi q
               in if 2 ^ 1024 \<le> y then None else Some y)"

definition rn :: "rat \<Rightarrow> float64" where
  "rn x = (if x = 0 then Finite 0
           else if 0 < x then (case rn_pos x of None \<Rightarrow> PInf | Some y \<Rightarrow> Finite y)
           else (case rn_pos (- x) of None \<Rightarrow> NInf | Some y \<Rightarrow> Finite (- y)))"

text \<open>
  \<open>Finite q\<close> stands for a float only when \<open>q\<close> is a binary64 value, that is when rounding
  leaves it alone.
\<close>

fun is_double :: "float64 \<Rightarrow> bool" where
  "is_double (Finite q) = (rn q = Finite q)"
| "is_double _ = True"

fun is_finite :: "float64 \<Rightarrow> bool" where
  "is_finite (Finite q) = True"
| "is_finite _ = False"

text \<open>Python's \<open>a + b\<close> on floats.\<close>

fun fadd :: "float64 \<Rightarrow> float64 \<Rightarrow> float64" where
  "fadd NaN _ = NaN"
| "fadd _ NaN = NaN"
| "fadd PInf NInf = NaN"
| "fadd NInf PInf = NaN"
| "fadd PInf _ = PInf"
| "fadd _ PInf = PInf"
| "fadd NInf _ = NInf"
| "fadd _ NInf = NInf"
| "fadd (Finite a) (Finite b) = rn (a + b)"

text \<open>Python's \<open>a * b\<close> on floats: an infinity times zero is NaN.\<close>

definition inf_times :: "bool \<Rightarrow> rat \<Rightarrow> float64" where
  "inf_times positive a =
     (if a = 0 then NaN else if (0 < a) = positive then PInf else NInf)"

fun fmul :: "float64 \<Rightarrow> float64 \<Rightarrow> float64" where
  "fmul NaN _ = NaN"
| "fmul _ NaN = NaN"
| "fmul PInf PInf = PInf"
| "fmul PInf NInf = NInf"
| "fmul NInf PInf = NInf"
| "fmul NInf NInf = PInf"
| "fmul PInf (Finite b) = inf_times True b"
| "fmul NInf (Finite b) = inf_times False b"
| "fmul (Finite a) PInf = inf_times True a"
| "fmul (Finite a) NInf = inf_times False a"
| "fmul (Finite a) (Finite b) = rn (a * b)"

text \<open>
  Python's \<open>x / 100.0\<close>. Float division raises only for a zero divisor, and the one divisor
  of this program is the literal \<open>100.0\<close>.
\<close>

fun fdiv_100 :: "float64 \<Rightarrow> float64" where
  "fdiv_100 (Finite a) = rn (a / 100)"
| "fdiv_100 x = x"

text \<open>Python's \<open>a < b\<close> and \<open>a <= b\<close> on floats: every comparison with NaN is false.\<close>

fun flt :: "float64 \<Rightarrow> float64 \<Rightarrow> bool" where
  "flt NaN _ = False"
| "flt _ NaN = False"
| "flt (Finite a) (Finite b) = (a < b)"
| "flt _ NInf = False"
| "flt PInf _ = False"
| "flt _ _ = True"

fun fle :: "float64 \<Rightarrow> float64 \<Rightarrow> bool" where
  "fle NaN _ = False"
| "fle _ NaN = False"
| "fle (Finite a) (Finite b) = (a \<le> b)"
| "fle NInf _ = True"
| "fle _ PInf = True"
| "fle _ _ = False"

text \<open>
  Python's \<open>round(v, 2)\<close>: an infinity or a NaN rounds to itself; a finite float is
  converted to the decimal with two places that is nearest to its exact value (ties to even)
  and that decimal is converted back to the nearest float.
\<close>

fun py_round2 :: "float64 \<Rightarrow> float64" where
  "py_round2 (Finite a) = rn (of_int (rhe (a * 100)) / 100)"
| "py_round2 x = x"


section \<open>Request payloads (main.py)\<close>

text \<open>
  \<open>CalculateMealItem\<close>, \<open>CalculateMealPayload\<close> and \<open>CreateFoodPayload\<close>. The name fields
  of the three classes are all called \<open>name\<close> in the source; here they are \<open>name\<close>,
  \<open>meal_name\<close> and \<open>food_name\<close>.
\<close>

record CalculateMealItem =
  name :: string
  grams :: float64
  calories_per_100g :: float64
  protein_per_100g :: float64
  carbs_per_100g :: float64
  fat_per_100g :: float64

record CalculateMealPayload =
  items :: "CalculateMealItem list"
  meal_name :: "string option"



section \<open>The aggregator \<open>calc_totals\<close>\<close>

record totals =
  calories :: float64
  protein :: float64
  carbs :: float64
  fat :: float64

definition totals_zero :: totals where
  "totals_zero = \<lparr>calories = Finite 0, protein = Finite 0, carbs = Finite 0, fat = Finite 0\<rparr>"

text \<open>One pass of the loop body.\<close>

definition accumulate :: "totals \<Rightarrow> CalculateMealItem \<Rightarrow> totals" where
  "accumulate t it =
     (let factor = fdiv_100 (grams it)
      in \<lparr>calories = fadd (calories t) (fmul (calories_per_100g it) factor),
          protein = fadd (protein t) (fmul (protein_per_100g it) factor),
          carbs = fadd (carbs t) (fmul (carbs_per_100g it) factor),
          fat = fadd (fat t) (fmul (fat_per_100g it) factor)\<rparr>)"

definition calc_totals :: "CalculateMealItem list \<Rightarrow> totals" where
  "calc_totals its =
     (let t = foldl accumulate totals_zero its
      in \<lparr>calories = py_round2 (calories t), protein = py_round2 (protein t),
          carbs = py_round2 (carbs t), fat = py_round2 (fat t)\<rparr>)"


section \<open>Documents and the document store\<close>

datatype pyvalue =
    VNone
  | VStr string
  | VFloat float64
  | VList "pyvalue list"
  | VDict "(string \<times> pyvalue) list"
  | VObjectId nat

type_synonym document = "(string \<times> pyvalue) list"

datatype error =
    RequestValidationError
  | HTTPException nat string
  | ValidationError
  | StoreError

text \<open>
  Modelled from the spec: the module \<open>database\<close> (\<open>create_document\<close>, \<open>get_documents\<close>) is
  not among the sources. The spec gives \<open>create(collection_name, document)\<close> as: returns a
  newly assigned identifier, inserts one document into the named collection, and fails,
  with the failure passed on, when the store is unreachable or rejects the write. The store
  is a state: the documents of each collection, the next identifier, and whether it accepts
  writes.
\<close>

record store =
  collections :: "string \<Rightarrow> document list"
  next_id :: nat
  accepting :: bool

definition create_document :: "string \<Rightarrow> document \<Rightarrow> store \<Rightarrow> (error + nat) \<times> store" where
  "create_document collection_name doc st =
     (if \<not> accepting st then (Inl StoreError, st)
      else (Inr (next_id st),
            st\<lparr>collections := (collections st)
                   (collection_name := collections st collection_name
                                       @ [AList.update ''_id'' (VObjectId (next_id st)) doc]),
               next_id := Suc (next_id st)\<rparr>))"


section \<open>Meal endpoints\<close>

record calculate_response =
  response_name :: "string option"
  response_totals :: totals

record save_response =
  response_id :: nat
  saved_totals :: totals

text \<open>\<open>it.model_dump()\<close>: the fields of the item in their declared order.\<close>

definition model_dump :: "CalculateMealItem \<Rightarrow> document" where
  "model_dump it =
     [(''name'', VStr (name it)),
      (''grams'', VFloat (grams it)),
      (''calories_per_100g'', VFloat (calories_per_100g it)),
      (''protein_per_100g'', VFloat (protein_per_100g it)),
      (''carbs_per_100g'', VFloat (carbs_per_100g it)),
      (''fat_per_100g'', VFloat (fat_per_100g it))]"

text \<open>\<open>payload.name or "Meal"\<close>: \<open>None\<close> and the empty string are both falsy.\<close>

definition name_or_Meal :: "string option \<Rightarrow> string" where
  "name_or_Meal n = (case n of None \<Rightarrow> ''Meal'' | Some s \<Rightarrow> if s = [] then ''Meal'' else s)"

definition calculate_meal :: "CalculateMealPayload \<Rightarrow> error + calculate_response" where
  "calculate_meal payload =
     (if items payload = [] then Inl (HTTPException 400 ''No items provided'')
      else (let totals = calc_totals (items payload)
            in Inr \<lparr>response_name = meal_name payload, response_totals = totals\<rparr>))"

definition meal_doc :: "CalculateMealPayload \<Rightarrow> totals \<Rightarrow> document" where
  "meal_doc payload totals =
     [(''name'', VStr (name_or_Meal (meal_name payload))),
      (''items'', VList (map (\<lambda>it. VDict (model_dump it)) (items payload))),
      (''total_calories'', VFloat (calories totals)),
      (''total_protein'', VFloat (protein totals)),
      (''total_carbs'', VFloat (carbs totals)),
      (''total_fat'', VFloat (fat totals))]"

definition save_meal :: "CalculateMealPayload \<Rightarrow> store \<Rightarrow> (error + save_response) \<times> store" where
  "save_meal payload st =
     (if items payload = [] then (Inl (HTTPException 400 ''No items provided''), st)
      else (let totals = calc_totals (items payload)
            in case create_document ''meal'' (meal_doc payload totals) st of
                 (Inl e, st') \<Rightarrow> (Inl e, st')
               | (Inr meal_id, st') \<Rightarrow>
                   (Inr \<lparr>response_id = meal_id, saved_totals = totals\<rparr>, st')))"


section \<open>Listing endpoints\<close>

text \<open>
  The loop \<open>for d in docs: d["_id"] = str(d["_id"]) if "_id" in d else None\<close>. Python's
  \<open>str\<close> is a parameter (\<open>py_str\<close>): whatever it is given, it returns a string.
\<close>

definition convert_id :: "(pyvalue \<Rightarrow> string) \<Rightarrow> document \<Rightarrow> document" where
  "convert_id py_str d =
     AList.update ''_id''
       (case map_of d ''_id'' of Some v \<Rightarrow> VStr (py_str v) | None \<Rightarrow> VNone) d"




section \<open>Food endpoint\<close>




section \<open>Request validation\<close>





definition and_then :: "error + 'a \<Rightarrow> ('a \<Rightarrow> error + 'b) \<Rightarrow> error + 'b" where
  "and_then r f = (case r of Inl e \<Rightarrow> Inl e | Inr v \<Rightarrow> f v)"












text \<open>An item as a validated request holds it: grams above zero, nutrients not below.\<close>

definition valid_item :: "CalculateMealItem \<Rightarrow> bool" where
  "valid_item it \<longleftrightarrow>
     flt (Finite 0) (grams it) \<and> fle (Finite 0) (calories_per_100g it)
     \<and> fle (Finite 0) (protein_per_100g it) \<and> fle (Finite 0) (carbs_per_100g it)
     \<and> fle (Finite 0) (fat_per_100g it)"







section \<open>Example data\<close>

definition rice :: CalculateMealItem where
  "rice = \<lparr>name = ''Rice'', grams = Finite 200, calories_per_100g = Finite 130,
            protein_per_100g = Finite 3, carbs_per_100g = Finite 28,
            fat_per_100g = Finite 0\<rparr>"

definition empty_store :: store where
  "empty_store = \<lparr>collections = (\<lambda>c. []), next_id = 0, accepting = True\<rparr>"





section \<open>Properties of the handlers\<close>

lemma create_document_accepting:
  "accepting st \<Longrightarrow>
   create_document c doc st =
     (Inr (next_id st),
      st\<lparr>collections := (collections st)
             (c := collections st c @ [AList.update ''_id'' (VObjectId (next_id st)) doc]),
         next_id := Suc (next_id st)\<rparr>)"
  by (simp add: create_document_def)

text \<open>
  C2. A payload whose item list is empty is answered by both meal handlers with the HTTP
  error 400 "No items provided": no totals are returned, and the save handler leaves the
  store exactly as it was.
\<close>

theorem empty_items_rejected:
  assumes "items payload = []"
  shows "calculate_meal payload = Inl (HTTPException 400 ''No items provided'')
         \<and> save_meal payload st = (Inl (HTTPException 400 ''No items provided''), st)"
  using assms by (simp add: calculate_meal_def save_meal_def)

text \<open>C2 at a named, empty meal and the empty store.\<close>

theorem empty_items_rejected_witness:
  "calculate_meal \<lparr>items = [], meal_name = Some ''Lunch''\<rparr>
     = Inl (HTTPException 400 ''No items provided'')
   \<and> save_meal \<lparr>items = [], meal_name = Some ''Lunch''\<rparr>
        \<lparr>collections = (\<lambda>c. []), next_id = 0, accepting = True\<rparr>
     = (Inl (HTTPException 400 ''No items provided''),
        \<lparr>collections = (\<lambda>c. []), next_id = 0, accepting = True\<rparr>)"
  using empty_items_rejected [of "\<lparr>items = [], meal_name = Some ''Lunch''\<rparr>"
      "\<lparr>collections = (\<lambda>c. []), next_id = 0, accepting = True\<rparr>"]
  by simp

text \<open>
  C10. For a payload with items, the calculate handler returns the meal name as it was
  submitted, \<open>None\<close> when it was absent: the default "Meal" is not applied there.
\<close>

theorem calculate_returns_name_unchanged:
  assumes "items payload \<noteq> []"
  shows "calculate_meal payload =
           Inr \<lparr>response_name = meal_name payload,
                response_totals = calc_totals (items payload)\<rparr>"
  using assms by (simp add: calculate_meal_def)

lemma save_meal_accepting:
  assumes "items payload \<noteq> []" and "accepting st"
  shows "save_meal payload st =
     (Inr \<lparr>response_id = next_id st, saved_totals = calc_totals (items payload)\<rparr>,
      st\<lparr>collections := (collections st)
             (''meal'' := collections st ''meal''
                @ [AList.update ''_id'' (VObjectId (next_id st))
                     (meal_doc payload (calc_totals (items payload)))]),
         next_id := Suc (next_id st)\<rparr>)"
  using assms by (simp add: save_meal_def create_document_accepting Let_def)

lemma save_meal_Inr:
  assumes "save_meal payload st = (Inr r, st')"
  shows "items payload \<noteq> [] \<and> accepting st"
  using assms by (auto simp: save_meal_def create_document_def Let_def split: if_splits)

lemma map_of_update_other:
  "k \<noteq> k' \<Longrightarrow> map_of (AList.update k' v d) k = map_of d k"
  by (simp add: update_conv')

text \<open>
  C9. When the submitted meal name is the empty string, every save that succeeds appends one
  document to the collection "meal", and the name of that document is "Meal".
\<close>

theorem empty_name_saved_as_Meal:
  assumes "meal_name payload = Some []" and "save_meal payload st = (Inr r, st')"
  shows "\<exists>doc. collections st' ''meal'' = collections st ''meal'' @ [doc]
               \<and> map_of doc ''name'' = Some (VStr ''Meal'')"
proof -
  from assms(2) have ok: "items payload \<noteq> []" "accepting st"
    using save_meal_Inr by blast+
  from save_meal_accepting [OF ok] assms(2)
  have "collections st' ''meal'' = collections st ''meal''
          @ [AList.update ''_id'' (VObjectId (next_id st))
               (meal_doc payload (calc_totals (items payload)))]"
    by auto
  moreover have "map_of (AList.update ''_id'' (VObjectId (next_id st))
               (meal_doc payload (calc_totals (items payload)))) ''name'' = Some (VStr ''Meal'')"
    using assms(1) by (simp add: map_of_update_other meal_doc_def name_or_Meal_def)
  ultimately show ?thesis by blast
qed

text \<open>C10 at a meal without a name.\<close>

theorem calculate_returns_name_unchanged_witness:
  "calculate_meal \<lparr>items = [rice], meal_name = None\<rparr> =
     Inr \<lparr>response_name = None, response_totals = calc_totals [rice]\<rparr>"
  using calculate_returns_name_unchanged [of "\<lparr>items = [rice], meal_name = None\<rparr>"]
  by simp

text \<open>C9 at a one-item meal with the empty name, saved into the empty store.\<close>

theorem empty_name_saved_as_Meal_witness:
  "\<exists>doc. collections (snd (save_meal \<lparr>items = [rice], meal_name = Some []\<rparr> empty_store)) ''meal''
            = collections empty_store ''meal'' @ [doc]
         \<and> map_of doc ''name'' = Some (VStr ''Meal'')"
proof -
  have ok: "items \<lparr>items = [rice], meal_name = Some []\<rparr> \<noteq> []" "accepting empty_store"
    by (simp_all add: empty_store_def)
  obtain r st' where eq: "save_meal \<lparr>items = [rice], meal_name = Some []\<rparr> empty_store = (Inr r, st')"
    using save_meal_accepting [OF ok] by blast
  from empty_name_saved_as_Meal [OF _ eq] show ?thesis
    by (simp add: eq)
qed

text \<open>
  C4, as amended. For a payload with items and a store that accepts the write, the save
  handler appends exactly one document to the collection "meal" and touches no other
  collection. The name of the document is the submitted name, or "Meal" when the name is
  absent or empty; its items are the dumps of the submitted items in their order; its four
  totals are the four totals of the response, which are those of \<open>calc_totals\<close>.
\<close>

theorem save_meal_persists:
  assumes "items payload \<noteq> []" and "accepting st"
  shows "\<exists>resp doc.
           fst (save_meal payload st) = Inr resp
         \<and> saved_totals resp = calc_totals (items payload)
         \<and> collections (snd (save_meal payload st)) ''meal'' = collections st ''meal'' @ [doc]
         \<and> (\<forall>c. c \<noteq> ''meal'' \<longrightarrow> collections (snd (save_meal payload st)) c = collections st c)
         \<and> map_of doc ''name'' =
             Some (VStr (case meal_name payload of
                           None \<Rightarrow> ''Meal''
                         | Some s \<Rightarrow> if s = [] then ''Meal'' else s))
         \<and> map_of doc ''items'' = Some (VList (map (\<lambda>it. VDict (model_dump it)) (items payload)))
         \<and> map_of doc ''total_calories'' = Some (VFloat (calories (saved_totals resp)))
         \<and> map_of doc ''total_protein'' = Some (VFloat (protein (saved_totals resp)))
         \<and> map_of doc ''total_carbs'' = Some (VFloat (carbs (saved_totals resp)))
         \<and> map_of doc ''total_fat'' = Some (VFloat (fat (saved_totals resp)))"
proof -
  let ?t = "calc_totals (items payload)"
  let ?doc = "AList.update ''_id'' (VObjectId (next_id st)) (meal_doc payload ?t)"
  let ?resp = "\<lparr>response_id = next_id st, saved_totals = ?t\<rparr>"
  note eq = save_meal_accepting [OF assms]
  have 1: "fst (save_meal payload st) = Inr ?resp" by (simp add: eq)
  have 2: "saved_totals ?resp = ?t" by simp
  have 3: "collections (snd (save_meal payload st)) ''meal'' = collections st ''meal'' @ [?doc]"
    by (simp add: eq)
  have 4: "\<forall>c. c \<noteq> ''meal'' \<longrightarrow> collections (snd (save_meal payload st)) c = collections st c"
    by (simp add: eq)
  have 5: "map_of ?doc ''name'' =
             Some (VStr (case meal_name payload of
                           None \<Rightarrow> ''Meal''
                         | Some s \<Rightarrow> if s = [] then ''Meal'' else s))"
    by (simp add: map_of_update_other meal_doc_def name_or_Meal_def)
  have 6: "map_of ?doc ''items'' = Some (VList (map (\<lambda>it. VDict (model_dump it)) (items payload)))"
    by (simp add: map_of_update_other meal_doc_def)
  have 7: "map_of ?doc ''total_calories'' = Some (VFloat (calories (saved_totals ?resp)))"
    by (simp add: map_of_update_other meal_doc_def)
  have 8: "map_of ?doc ''total_protein'' = Some (VFloat (protein (saved_totals ?resp)))"
    by (simp add: map_of_update_other meal_doc_def)
  have 9: "map_of ?doc ''total_carbs'' = Some (VFloat (carbs (saved_totals ?resp)))"
    by (simp add: map_of_update_other meal_doc_def)
  have 10: "map_of ?doc ''total_fat'' = Some (VFloat (fat (saved_totals ?resp)))"
    by (simp add: map_of_update_other meal_doc_def)
  from 1 2 3 4 5 6 7 8 9 10 show ?thesis by blast
qed

text \<open>C4 at the meal "Lunch" with one item, saved into the empty store.\<close>

theorem save_meal_persists_witness:
  "\<exists>resp doc.
     fst (save_meal \<lparr>items = [rice], meal_name = Some ''Lunch''\<rparr> empty_store) = Inr resp
   \<and> collections (snd (save_meal \<lparr>items = [rice], meal_name = Some ''Lunch''\<rparr> empty_store)) ''meal''
       = [doc]
   \<and> map_of doc ''name'' = Some (VStr ''Lunch'')
   \<and> map_of doc ''items'' = Some (VList [VDict (model_dump rice)])
   \<and> map_of doc ''total_calories'' = Some (VFloat (calories (saved_totals resp)))"
proof -
  have ok: "items \<lparr>items = [rice], meal_name = Some ''Lunch''\<rparr> \<noteq> []" "accepting empty_store"
    by (simp_all add: empty_store_def)
  from save_meal_persists [OF ok] show ?thesis
    by (auto simp: empty_store_def)
qed

text \<open>
  C4 as stated fails for a name that is present and empty: the request is valid, its name is
  not absent, and the stored name is "Meal", not the submitted empty string.
\<close>

theorem empty_name_not_kept_counterexample:
  "valid_item rice
   \<and> meal_name \<lparr>items = [rice], meal_name = Some []\<rparr> = Some []
   \<and> map_of (last (collections
        (snd (save_meal \<lparr>items = [rice], meal_name = Some []\<rparr> empty_store)) ''meal'')) ''name''
       = Some (VStr ''Meal'')
   \<and> ''Meal'' \<noteq> ([] :: string)"
proof -
  have ok: "items \<lparr>items = [rice], meal_name = Some []\<rparr> \<noteq> []" "accepting empty_store"
    by (simp_all add: empty_store_def)
  have "valid_item rice" by (simp add: valid_item_def rice_def)
  then show ?thesis
    by (simp add: save_meal_accepting [OF ok] map_of_update_other meal_doc_def name_or_Meal_def)
qed

lemma map_of_convert_id:
  "map_of (convert_id py_str d) ''_id'' =
     Some (case map_of d ''_id'' of Some v \<Rightarrow> VStr (py_str v) | None \<Rightarrow> VNone)"
  by (simp add: convert_id_def update_conv')

lemma convert_id_never_native: "map_of (convert_id py_str d) ''_id'' \<noteq> Some (VObjectId n)"
  by (simp add: map_of_convert_id split: option.split)



lemma and_then_Inl [simp]: "and_then (Inl e) f = Inl e"
  by (simp add: and_then_def)

lemma and_then_Inr [simp]: "and_then (Inr v) f = f v"
  by (simp add: and_then_def)














end
